theory Spec2Isabelle
  imports Complex_Main "HOL-Library.Sublist"
begin

section \<open>Protocol messages\<close>

text \<open>
  Modelled from the spec: the generated protocol classes (\<^verbatim>\<open>python_proto.helloworld_pb2\<close>,
  \<^verbatim>\<open>python_proto.claude.claude_pb2\<close>, \<^verbatim>\<open>python_proto.ielts_pb2\<close>) are not among the sources.
  The spec gives two flat record shapes whose fields are text; the field names are the
  keyword arguments and attribute reads of the three source files. Every message is a
  value: a handler builds new messages and never assigns to a field of one it received.
\<close>

record HelloRequest =
  name :: string

record HelloReply =
  message :: string

record EvaluationRequest =
  student_response :: string
  passage :: string
  question :: string
  complex_sentences :: string
  advanced_vocabulary :: string
  cohesive_devices :: string

record EvaluationRequestToClaude =
  student_response :: string
  passage :: string
  question :: string
  complex_sentences :: string
  advanced_vocabulary :: string
  cohesive_devices :: string

record EvaluationResponseFromClaude =
  evaluation :: string

record EvaluationResponseFromToDataBase =
  student_response :: string
  passage :: string
  question :: string
  complex_sentences :: string
  advanced_vocabulary :: string
  cohesive_devices :: string
  evaluation_from_claude :: string

section \<open>Python values, faults and the outbound HTTP call\<close>

text \<open>
  What \<^verbatim>\<open>response.json()\<close> can return and what \<^verbatim>\<open>json=data\<close> is serialised from.
  A dict is the list of its items in insertion order (keys distinct); reading a key is
  \<^const>\<open>map_of\<close>. A Python \<^verbatim>\<open>str\<close> is a sequence of code points: \<open>JString s\<close> is a
  \<^verbatim>\<open>str\<close> that UTF-8 can encode, held as its encoding \<open>s\<close>; \<open>JStringSurrogate cs\<close> is a
  \<^verbatim>\<open>str\<close> in which a lone surrogate (a code point from D800 to DFFF) occurs, held as its
  code points. The JSON parser returns such a \<^verbatim>\<open>str\<close> for an escape of a lone surrogate,
  and UTF-8 cannot encode it.
\<close>

datatype json =
    JNull
  | JBool bool
  | JInt int
  | JFloat rat
  | JString string
  | JStringSurrogate "nat list"
  | JArray "json list"
  | JObject "(string \<times> json) list"

text \<open>
  The ways a call of \<^verbatim>\<open>requests.post\<close> can fail: the failures of the transport, in the
  spec's words, and the library's refusal to follow more than 30 redirects.
\<close>

datatype transport_failure = ConnectionRefused | Timeout | DNSFailure | TooManyRedirects

text \<open>
  Every exception the code of \<^verbatim>\<open>evaluate_ielts\<close> can raise. None of them is caught anywhere
  in the three source files, so a raised exception is the result of the whole call.
\<close>

datatype py_error =
    RequestException transport_failure
  | JSONDecodeError
  | KeyError string
  | TypeError
  | ValueError

datatype http_method = GET | POST

record http_request =
  verb :: http_method
  url :: string
  headers :: "(string \<times> string) list"
  body :: json

text \<open>
  The part of a \<^verbatim>\<open>requests.Response\<close> the code reads: the status code, and the parsed
  body (\<open>None\<close> when the body is not JSON, so that \<^verbatim>\<open>.json()\<close> raises).
\<close>

record http_response =
  status_code :: int
  parsed_body :: "json option"

text \<open>
  A network is the environment of the calling code: what one call of \<^verbatim>\<open>requests.post\<close>
  gives back, given the requests posted before and the request posted now. The call either
  raises or hands back a response; the response handed back is the answer of the external
  API or, when the library has followed redirects inside the call, the last answer of the
  chain (\<open>requests_session\<close> below). The list of posted requests is the only state the
  model threads through: it records every call of \<^verbatim>\<open>requests.post\<close>.
\<close>

type_synonym outbox = "http_request list"

type_synonym network = "outbox \<Rightarrow> http_request \<Rightarrow> transport_failure + http_response"

text \<open>
  \<^verbatim>\<open>requests.post(url, json=data, headers=headers)\<close> as the calling code sees it: the
  request it is called with, which is recorded, and what the network hands back for it.
\<close>

definition post_request :: "string \<Rightarrow> json \<Rightarrow> (string \<times> string) list \<Rightarrow> http_request" where
  "post_request target data hdrs = \<lparr>verb = POST, url = target, headers = hdrs, body = data\<rparr>"

definition requests_post ::
  "network \<Rightarrow> string \<Rightarrow> json \<Rightarrow> (string \<times> string) list \<Rightarrow> outbox
    \<Rightarrow> (transport_failure + http_response) \<times> outbox" where
  "requests_post net target data hdrs sent =
     (net sent (post_request target data hdrs), sent @ [post_request target data hdrs])"

definition response_json :: "http_response \<Rightarrow> py_error + json" where
  "response_json response =
     (case parsed_body response of None \<Rightarrow> Inl JSONDecodeError | Some v \<Rightarrow> Inr v)"

text \<open>
  Inside a call of \<^verbatim>\<open>requests.post\<close>. The source passes no \<^verbatim>\<open>allow_redirects\<close>, so the
  library's default holds: it sends the request to the external API and, while the answer
  is a redirect (status 301, 302, 303, 307 or 308 with a \<^verbatim>\<open>Location\<close> header), sends a
  follow-up request to the target, at most 30 times; the response it hands back is the
  last answer. A \<^verbatim>\<open>Location\<close> is held as the absolute URL the library resolves it to. The
  headers of a request are those the caller gave; the source gives no \<^verbatim>\<open>Authorization\<close>
  header, which the library would drop when the host changes.
\<close>

record wire_request =
  wire_verb :: http_method
  wire_url :: string
  wire_headers :: "(string \<times> string) list"
  wire_body :: "json option"

record api_answer =
  answer_status :: int
  answer_location :: "string option"
  answer_body :: "json option"

type_synonym api = "wire_request \<Rightarrow> transport_failure + api_answer"

definition prepare :: "http_request \<Rightarrow> wire_request" where
  "prepare call =
     \<lparr>wire_verb = verb call, wire_url = url call, wire_headers = headers call,
      wire_body = Some (body call)\<rparr>"

definition is_redirect :: "api_answer \<Rightarrow> bool" where
  "is_redirect answer =
     (answer_location answer \<noteq> None \<and> answer_status answer \<in> set [301, 302, 303, 307, 308])"

text \<open>The target the library follows: none when the header is empty.\<close>

definition get_redirect_target :: "api_answer \<Rightarrow> string option" where
  "get_redirect_target answer =
     (if is_redirect answer \<and> answer_location answer \<noteq> Some [] then answer_location answer
      else None)"

definition rebuild_method :: "http_method \<Rightarrow> api_answer \<Rightarrow> http_method" where
  "rebuild_method m answer =
     (if answer_status answer = 303 then GET
      else if answer_status answer = 302 then GET
      else if answer_status answer = 301 \<and> m = POST then GET
      else m)"

definition purged_headers :: "string list" where
  "purged_headers = [''Content-Length'', ''Content-Type'', ''Transfer-Encoding'']"

text \<open>
  The follow-up request: to the target, with the rebuilt verb; unless the status is 307 or
  308 the body and the headers that describe it are dropped. Cookies are rebuilt by the
  library; every other header, so the \<^verbatim>\<open>X-API-Key\<close> of the source, is sent again.
\<close>

definition redirected_request :: "wire_request \<Rightarrow> api_answer \<Rightarrow> string \<Rightarrow> wire_request" where
  "redirected_request req answer target =
     (if answer_status answer \<in> set [307, 308] then
        \<lparr>wire_verb = rebuild_method (wire_verb req) answer, wire_url = target,
         wire_headers = filter (\<lambda>h. fst h \<noteq> ''Cookie'') (wire_headers req),
         wire_body = wire_body req\<rparr>
      else
        \<lparr>wire_verb = rebuild_method (wire_verb req) answer, wire_url = target,
         wire_headers =
           filter (\<lambda>h. fst h \<noteq> ''Cookie'' \<and> fst h \<notin> set purged_headers) (wire_headers req),
         wire_body = None\<rparr>)"

definition handed_back :: "api_answer \<Rightarrow> http_response" where
  "handed_back answer =
     \<lparr>status_code = answer_status answer, parsed_body = answer_body answer\<rparr>"

fun resolve_redirects ::
  "nat \<Rightarrow> api \<Rightarrow> wire_request \<Rightarrow> api_answer \<Rightarrow> transport_failure + http_response" where
  "resolve_redirects 0 api req answer =
     (case get_redirect_target answer of
        None \<Rightarrow> Inr (handed_back answer)
      | Some target \<Rightarrow> Inl TooManyRedirects)"
| "resolve_redirects (Suc n) api req answer =
     (case get_redirect_target answer of
        None \<Rightarrow> Inr (handed_back answer)
      | Some target \<Rightarrow>
          (case api (redirected_request req answer target) of
             Inl failure \<Rightarrow> Inl failure
           | Inr next_answer \<Rightarrow>
               resolve_redirects n api (redirected_request req answer target) next_answer))"

text \<open>The network that the HTTP library makes of an external API.\<close>

definition requests_session :: "api \<Rightarrow> network" where
  "requests_session api sent call =
     (case api (prepare call) of
        Inl failure \<Rightarrow> Inl failure
      | Inr answer \<Rightarrow> resolve_redirects 30 api (prepare call) answer)"

text \<open>
  Python's \<^verbatim>\<open>v[key]\<close> for a string key: a dict looks the key up and raises
  \<^verbatim>\<open>KeyError\<close> when it is absent; a list, a string, a number, a boolean and \<^verbatim>\<open>None\<close>
  raise \<^verbatim>\<open>TypeError\<close>.
\<close>

fun subscript :: "json \<Rightarrow> string \<Rightarrow> py_error + json" where
  "subscript (JObject items) key =
     (case map_of items key of None \<Rightarrow> Inl (KeyError key) | Some v \<Rightarrow> Inr v)"
| "subscript _ key = Inl TypeError"

text \<open>
  The constructor \<^verbatim>\<open>EvaluationResponseFromClaude(evaluation=v)\<close>. The field takes the
  string literal of the failure branch, so it is a text field: the protocol library
  stores a string that UTF-8 can encode, refuses a string with a lone surrogate
  (\<^verbatim>\<open>UnicodeEncodeError\<close>, which is a \<^verbatim>\<open>ValueError\<close>), treats \<^verbatim>\<open>None\<close> as the field left
  unset (the empty string) and raises \<^verbatim>\<open>TypeError\<close> for every other value.
\<close>

fun EvaluationResponseFromClaude_init :: "json \<Rightarrow> py_error + EvaluationResponseFromClaude" where
  "EvaluationResponseFromClaude_init (JString s) = Inr \<lparr>evaluation = s\<rparr>"
| "EvaluationResponseFromClaude_init (JStringSurrogate cs) = Inl ValueError"
| "EvaluationResponseFromClaude_init JNull = Inr \<lparr>evaluation = []\<rparr>"
| "EvaluationResponseFromClaude_init _ = Inl TypeError"

section \<open>\<^verbatim>\<open>ielts_repository.py\<close>: the evaluation client\<close>

record ClaudeRepository =
  api_url :: string
  api_key :: string

text \<open>
  \<^verbatim>\<open>ClaudeRepository.__init__\<close>. The source assigns a credential literal to
  \<^verbatim>\<open>self.api_key\<close>; the literal is not repeated here and is the argument \<open>secret\<close>.
\<close>

definition ClaudeRepository_init :: "string \<Rightarrow> ClaudeRepository" where
  "ClaudeRepository_init secret =
     \<lparr>api_url = ''https://api.anthropic.com/v1/messages'', api_key = secret\<rparr>"

text \<open>The three locals \<^verbatim>\<open>headers\<close>, \<^verbatim>\<open>prompt\<close> and \<^verbatim>\<open>data\<close> of \<^verbatim>\<open>evaluate_ielts\<close>.\<close>

definition evaluate_ielts_headers :: "ClaudeRepository \<Rightarrow> (string \<times> string) list" where
  "evaluate_ielts_headers self =
     [(''Content-Type'', ''application/json''), (''X-API-Key'', api_key self)]"

definition prompt :: "EvaluationRequestToClaude \<Rightarrow> string" where
  "prompt request =
     ''\<newline>        Evaluate the following IELTS reading response:\<newline>\<newline>        Passage: ''
       @ EvaluationRequestToClaude.passage request
       @ ''\<newline>        Question: ''
       @ EvaluationRequestToClaude.question request
       @ ''\<newline>        Student Response: ''
       @ EvaluationRequestToClaude.student_response request
       @ ''\<newline>\<newline>        Please consider the following aspects in your evaluation:\<newline>        1. Complex Sentences: ''
       @ EvaluationRequestToClaude.complex_sentences request
       @ ''\<newline>        2. Advanced Vocabulary: ''
       @ EvaluationRequestToClaude.advanced_vocabulary request
       @ ''\<newline>        3. Cohesive Devices: ''
       @ EvaluationRequestToClaude.cohesive_devices request
       @ ''\<newline>\<newline>        Provide a detailed evaluation of the student's response, including strengths and areas for improvement.\<newline>        ''"

definition evaluate_ielts_data :: "EvaluationRequestToClaude \<Rightarrow> json" where
  "evaluate_ielts_data request =
     JObject
       [(''model'', JString ''claude-3-sonnet-20240229''),
        (''messages'',
           JArray [JObject [(''role'', JString ''user''), (''content'', JString (prompt request))]]),
        (''max_tokens'', JInt 1000)]"

text \<open>
  Lines 36 to 42: what \<^verbatim>\<open>evaluate_ielts\<close> does once \<^verbatim>\<open>requests.post\<close> has returned or
  raised. An exception of the transport is not caught; neither is one raised while the
  body is read.
\<close>

definition evaluate_ielts_return ::
  "transport_failure + http_response \<Rightarrow> py_error + EvaluationResponseFromClaude" where
  "evaluate_ielts_return outcome =
     (case outcome of
        Inl failure \<Rightarrow> Inl (RequestException failure)
      | Inr response \<Rightarrow>
          if status_code response = 200 then
            (case response_json response of
               Inl e \<Rightarrow> Inl e
             | Inr parsed \<Rightarrow>
                 (case subscript parsed ''content'' of
                    Inl e \<Rightarrow> Inl e
                  | Inr claude_evaluation \<Rightarrow> EvaluationResponseFromClaude_init claude_evaluation))
          else
            EvaluationResponseFromClaude_init
              (JString ''Error: Unable to get evaluation from Claude.''))"

definition evaluate_ielts ::
  "network \<Rightarrow> ClaudeRepository \<Rightarrow> EvaluationRequestToClaude \<Rightarrow> outbox
    \<Rightarrow> (py_error + EvaluationResponseFromClaude) \<times> outbox" where
  "evaluate_ielts net self request sent =
     (case requests_post net (api_url self) (evaluate_ielts_data request)
             (evaluate_ielts_headers self) sent of
        (outcome, sent') \<Rightarrow> (evaluate_ielts_return outcome, sent'))"

section \<open>\<^verbatim>\<open>ielts_service.py\<close>: the delegating handler\<close>

record IELTSService =
  claude_repository :: ClaudeRepository

definition IELTSService_init :: "string \<Rightarrow> IELTSService" where
  "IELTSService_init secret = \<lparr>claude_repository = ClaudeRepository_init secret\<rparr>"

text \<open>Lines 11 to 18: the request handed to the client.\<close>

definition claude_request :: "EvaluationRequest \<Rightarrow> EvaluationRequestToClaude" where
  "claude_request request =
     \<lparr>EvaluationRequestToClaude.student_response = EvaluationRequest.student_response request,
      passage = EvaluationRequest.passage request,
      question = EvaluationRequest.question request,
      complex_sentences = EvaluationRequest.complex_sentences request,
      advanced_vocabulary = EvaluationRequest.advanced_vocabulary request,
      cohesive_devices = EvaluationRequest.cohesive_devices request\<rparr>"

text \<open>
  Lines 21 to 34, from the return of the client on: a fault of the client leaves the
  handler before the response is built.
\<close>

definition EvaluateIELTS_return ::
  "EvaluationRequest \<Rightarrow> py_error + EvaluationResponseFromClaude
    \<Rightarrow> py_error + EvaluationResponseFromToDataBase" where
  "EvaluateIELTS_return request result =
     (case result of
        Inl e \<Rightarrow> Inl e
      | Inr claude_response \<Rightarrow>
          Inr \<lparr>EvaluationResponseFromToDataBase.student_response =
                  EvaluationRequest.student_response request,
                passage = EvaluationRequest.passage request,
                question = EvaluationRequest.question request,
                complex_sentences = EvaluationRequest.complex_sentences request,
                advanced_vocabulary = EvaluationRequest.advanced_vocabulary request,
                cohesive_devices = EvaluationRequest.cohesive_devices request,
                evaluation_from_claude = evaluation claude_response\<rparr>)"

text \<open>
  \<^verbatim>\<open>IELTSService.EvaluateIELTS\<close> of \<^verbatim>\<open>ielts_service.py\<close>. The \<^verbatim>\<open>context\<close> argument is
  never read.
\<close>

definition ielts_service_EvaluateIELTS ::
  "network \<Rightarrow> IELTSService \<Rightarrow> EvaluationRequest \<Rightarrow> outbox
    \<Rightarrow> (py_error + EvaluationResponseFromToDataBase) \<times> outbox" where
  "ielts_service_EvaluateIELTS net self request sent =
     (case evaluate_ielts net (claude_repository self) (claude_request request) sent of
        (result, sent') \<Rightarrow> (EvaluateIELTS_return request result, sent'))"

section \<open>\<^verbatim>\<open>python_server.py\<close>: the two servicers of the bootstrap\<close>

definition SayHello :: "HelloRequest \<Rightarrow> HelloReply" where
  "SayHello request = \<lparr>message = ''Hello, '' @ name request @ ''!''\<rparr>"

text \<open>\<^verbatim>\<open>IELTSService.EvaluateIELTS\<close> of \<^verbatim>\<open>python_server.py\<close>: no call, no state.\<close>

definition python_server_EvaluateIELTS :: "EvaluationRequest \<Rightarrow> EvaluationResponseFromToDataBase" where
  "python_server_EvaluateIELTS request =
     \<lparr>EvaluationResponseFromToDataBase.student_response = EvaluationRequest.student_response request,
      passage = EvaluationRequest.passage request,
      question = EvaluationRequest.question request,
      complex_sentences = EvaluationRequest.complex_sentences request,
      advanced_vocabulary = EvaluationRequest.advanced_vocabulary request,
      cohesive_devices = EvaluationRequest.cohesive_devices request,
      evaluation_from_claude = ''Evaluation not implemented yet.''\<rparr>"

section \<open>The RPC server that \<^verbatim>\<open>serve\<close> builds\<close>

text \<open>
  Modelled from the spec: the generated registration functions
  (\<^verbatim>\<open>add_GreeterServicer_to_server\<close>, \<^verbatim>\<open>add_IELTSServiceServicer_to_server\<close>) are not among
  the sources, and the server object is the RPC library's. The spec's bootstrap constructs
  the server with a bounded worker pool, registers service handlers on it, binds a port
  and runs; it dispatches each call to the registered handler, and an unhandled fault of
  a handler ends the call with an internal error.
\<close>

type_synonym evaluate_handler =
  "network \<Rightarrow> EvaluationRequest \<Rightarrow> outbox
    \<Rightarrow> (py_error + EvaluationResponseFromToDataBase) \<times> outbox"

datatype servicer =
    GreeterServicer "HelloRequest \<Rightarrow> HelloReply"
  | IELTSServiceServicer evaluate_handler

datatype listener = InsecurePort string | SecurePort string

record grpc_server =
  max_workers :: nat
  servicers :: "servicer list"
  listeners :: "listener list"
  started :: bool

definition grpc_server_new :: "nat \<Rightarrow> grpc_server" where
  "grpc_server_new pool_size =
     \<lparr>max_workers = pool_size, servicers = [], listeners = [], started = False\<rparr>"

definition add_GreeterServicer_to_server ::
  "(HelloRequest \<Rightarrow> HelloReply) \<Rightarrow> grpc_server \<Rightarrow> grpc_server" where
  "add_GreeterServicer_to_server h server =
     server\<lparr>servicers := servicers server @ [GreeterServicer h]\<rparr>"

definition add_IELTSServiceServicer_to_server ::
  "evaluate_handler \<Rightarrow> grpc_server \<Rightarrow> grpc_server" where
  "add_IELTSServiceServicer_to_server h server =
     server\<lparr>servicers := servicers server @ [IELTSServiceServicer h]\<rparr>"

definition add_insecure_port :: "string \<Rightarrow> grpc_server \<Rightarrow> grpc_server" where
  "add_insecure_port address server =
     server\<lparr>listeners := listeners server @ [InsecurePort address]\<rparr>"

definition server_start :: "grpc_server \<Rightarrow> grpc_server" where
  "server_start server = server\<lparr>started := True\<rparr>"

text \<open>The port of a listener address: the text after its last colon.\<close>

definition port_of :: "string \<Rightarrow> string" where
  "port_of address = rev (takeWhile (\<lambda>c. c \<noteq> CHR '':'') (rev address))"

definition listener_port :: "listener \<Rightarrow> string" where
  "listener_port l = (case l of InsecurePort address \<Rightarrow> port_of address
                               | SecurePort address \<Rightarrow> port_of address)"

text \<open>
  A method of \<^verbatim>\<open>python_server.py\<close>'s \<^verbatim>\<open>IELTSService\<close> as a handler: it returns, and
  posts nothing.
\<close>

definition without_call ::
  "(EvaluationRequest \<Rightarrow> EvaluationResponseFromToDataBase) \<Rightarrow> evaluate_handler" where
  "without_call h net request sent = (Inr (h request), sent)"

text \<open>
  \<^verbatim>\<open>serve\<close>, lines 35 to 38: the server as configured, in the order of the source.
  The two \<^verbatim>\<open>print\<close> calls write to the console only.
\<close>

definition serve_configured :: grpc_server where
  "serve_configured =
     (let server = grpc_server_new 10;
          server = add_GreeterServicer_to_server SayHello server;
          server = add_IELTSServiceServicer_to_server (without_call python_server_EvaluateIELTS) server;
          server = add_insecure_port ''[::]:50052'' server
      in server)"

text \<open>
  \<^verbatim>\<open>serve\<close>, lines 40 and 41: the server is started; \<^verbatim>\<open>wait_for_termination\<close> blocks
  and changes nothing.
\<close>

definition serve :: grpc_server where
  "serve = server_start serve_configured"

text \<open>Dispatch of one \<^verbatim>\<open>EvaluateIELTS\<close> call by a server.\<close>

datatype rpc_status = UNAVAILABLE | UNIMPLEMENTED | UNHANDLED py_error

fun evaluate_handler_of :: "servicer list \<Rightarrow> evaluate_handler option" where
  "evaluate_handler_of [] = None"
| "evaluate_handler_of (IELTSServiceServicer h # rest) = Some h"
| "evaluate_handler_of (GreeterServicer h # rest) = evaluate_handler_of rest"

definition rpc_call ::
  "evaluate_handler \<Rightarrow> network \<Rightarrow> EvaluationRequest \<Rightarrow> outbox
    \<Rightarrow> (rpc_status + EvaluationResponseFromToDataBase) \<times> outbox" where
  "rpc_call h net request sent =
     (case h net request sent of
        (Inl e, sent') \<Rightarrow> (Inl (UNHANDLED e), sent')
      | (Inr response, sent') \<Rightarrow> (Inr response, sent'))"

definition rpc_EvaluateIELTS ::
  "grpc_server \<Rightarrow> network \<Rightarrow> EvaluationRequest \<Rightarrow> outbox
    \<Rightarrow> (rpc_status + EvaluationResponseFromToDataBase) \<times> outbox" where
  "rpc_EvaluateIELTS server net request sent =
     (if \<not> started server then (Inl UNAVAILABLE, sent)
      else case evaluate_handler_of (servicers server) of
             None \<Rightarrow> (Inl UNIMPLEMENTED, sent)
           | Some h \<Rightarrow> rpc_call h net request sent)"

text \<open>The bound method \<^verbatim>\<open>EvaluateIELTS\<close> of an \<^verbatim>\<open>ielts_service.py\<close> servicer, as a handler.\<close>

definition ielts_service_handler :: "IELTSService \<Rightarrow> evaluate_handler" where
  "ielts_service_handler self net request sent = ielts_service_EvaluateIELTS net self request sent"

text \<open>An API that gives the same outcome to every call.\<close>

definition answering :: "transport_failure + http_response \<Rightarrow> network" where
  "answering outcome sent call = outcome"

section \<open>Calls served in parallel\<close>

text \<open>
  The worker pool is the RPC library's: each call runs one of the two handlers on a worker
  of its own, and the workers interleave in any order. The locals of a call are its frame.
  What the workers of a process share is the servicer object with its repository, and the
  network. A handler touches something other than its locals at two points: when it reads
  the repository and posts, after which it is blocked, and when the outcome of its post
  arrives. The stub handler returns in one step.
\<close>

datatype handler_code = PythonServer | IeltsService

datatype frame =
    Entered handler_code EvaluationRequest
  | Blocked EvaluationRequest
  | Returned "py_error + EvaluationResponseFromToDataBase"

record process =
  service :: IELTSService
  wire :: outbox

fun worker_step ::
  "transport_failure + http_response \<Rightarrow> process \<Rightarrow> frame \<Rightarrow> frame \<times> process" where
  "worker_step answer p (Entered PythonServer request) =
     (Returned (Inr (python_server_EvaluateIELTS request)), p)"
| "worker_step answer p (Entered IeltsService request) =
     (Blocked request,
      p\<lparr>wire := wire p @
           [post_request (api_url (claude_repository (service p)))
              (evaluate_ielts_data (claude_request request))
              (evaluate_ielts_headers (claude_repository (service p)))]\<rparr>)"
| "worker_step answer p (Blocked request) =
     (Returned (EvaluateIELTS_return request (evaluate_ielts_return answer)), p)"
| "worker_step answer p (Returned result) = (Returned result, p)"

text \<open>
  A schedule names, step by step, the worker that moves; \<open>answers i\<close> is the outcome the
  external API gives to the post of call \<open>i\<close>.
\<close>

fun run_pool ::
  "(nat \<Rightarrow> transport_failure + http_response) \<Rightarrow> nat list \<Rightarrow> frame list \<times> process
    \<Rightarrow> frame list \<times> process" where
  "run_pool answers [] state = state"
| "run_pool answers (i # schedule) (frames, p) =
     (if i < length frames then
        (case worker_step (answers i) p (frames ! i) of
           (frame', p') \<Rightarrow> run_pool answers schedule (frames[i := frame'], p'))
      else run_pool answers schedule (frames, p))"

definition enter :: "handler_code \<times> EvaluationRequest \<Rightarrow> frame" where
  "enter call = Entered (fst call) (snd call)"

text \<open>What a handler returns when it is the only call of the process.\<close>

definition alone ::
  "IELTSService \<Rightarrow> transport_failure + http_response \<Rightarrow> handler_code \<times> EvaluationRequest
    \<Rightarrow> py_error + EvaluationResponseFromToDataBase" where
  "alone self answer call =
     (case fst call of
        PythonServer \<Rightarrow> fst (without_call python_server_EvaluateIELTS (answering answer) (snd call) [])
      | IeltsService \<Rightarrow> fst (ielts_service_handler self (answering answer) (snd call) []))"

text \<open>One step of a worker as seen from its own frame.\<close>

definition own_step ::
  "transport_failure + http_response \<Rightarrow> IELTSService \<Rightarrow> frame \<Rightarrow> frame" where
  "own_step answer self f = fst (worker_step answer \<lparr>service = self, wire = []\<rparr> f)"

section \<open>The scenarios of the spec\<close>

text \<open>The request of the spec's scenarios, and the mocked answers of the external API.\<close>

definition scenario_request :: EvaluationRequest where
  "scenario_request =
     \<lparr>EvaluationRequest.student_response = ''R'', passage = ''P'', question = ''Q'',
      complex_sentences = ''yes'', advanced_vocabulary = ''no'', cohesive_devices = ''yes''\<rparr>"

definition scenario_response :: "string \<Rightarrow> EvaluationResponseFromToDataBase" where
  "scenario_response text =
     \<lparr>EvaluationResponseFromToDataBase.student_response = ''R'', passage = ''P'', question = ''Q'',
      complex_sentences = ''yes'', advanced_vocabulary = ''no'', cohesive_devices = ''yes'',
      evaluation_from_claude = text\<rparr>"

definition answer_good_job :: http_response where
  "answer_good_job =
     \<lparr>status_code = 200, parsed_body = Some (JObject [(''content'', JString ''Good job.'')])\<rparr>"

definition answer_500 :: http_response where
  "answer_500 = \<lparr>status_code = 500, parsed_body = None\<rparr>"


definition answer_without_content :: http_response where
  "answer_without_content =
     \<lparr>status_code = 200, parsed_body = Some (JObject [(''error'', JString ''overloaded'')])\<rparr>"

text \<open>
  An external API that answers a request to the endpoint of the source with a redirect
  to another URL, and a request to any other URL with status 200 and a \<^verbatim>\<open>content\<close>; and
  one that answers every request with status 500.
\<close>

definition answer_moved :: api_answer where
  "answer_moved =
     \<lparr>answer_status = 302, answer_location = Some ''https://elsewhere.example/v1/messages'',
      answer_body = None\<rparr>"

definition redirecting_api :: api where
  "redirecting_api req =
     (if wire_url req = ''https://api.anthropic.com/v1/messages'' then Inr answer_moved
      else Inr \<lparr>answer_status = 200, answer_location = None,
                 answer_body = Some (JObject [(''content'', JString ''Good job.'')])\<rparr>)"

definition failing_api :: api where
  "failing_api req = Inr \<lparr>answer_status = 500, answer_location = None, answer_body = None\<rparr>"

text \<open>An answer with status 200 whose \<^verbatim>\<open>content\<close> is the lone surrogate U+D800.\<close>

definition answer_surrogate :: http_response where
  "answer_surrogate =
     \<lparr>status_code = 200, parsed_body = Some (JObject [(''content'', JStringSurrogate [55296])])\<rparr>"

text \<open>A second request, and the answers the external API gives to two calls in flight.\<close>

definition other_request :: EvaluationRequest where
  "other_request =
     \<lparr>EvaluationRequest.student_response = ''S'', passage = ''T'', question = ''U'',
      complex_sentences = ''no'', advanced_vocabulary = ''yes'', cohesive_devices = ''no''\<rparr>"

definition scenario_answers :: "nat \<Rightarrow> transport_failure + http_response" where
  "scenario_answers i = (if i = 0 then Inr answer_good_job else Inr answer_500)"

section \<open>Results and effects of the client and of the delegating handler\<close>

lemma evaluate_ielts_result:
  "fst (evaluate_ielts net self request sent) =
     evaluate_ielts_return
       (net sent (post_request (api_url self) (evaluate_ielts_data request)
          (evaluate_ielts_headers self)))"
  by (simp add: evaluate_ielts_def requests_post_def)

lemma evaluate_ielts_outbox:
  "snd (evaluate_ielts net self request sent) =
     sent @ [post_request (api_url self) (evaluate_ielts_data request) (evaluate_ielts_headers self)]"
  by (simp add: evaluate_ielts_def requests_post_def)

lemma EvaluateIELTS_result:
  "fst (ielts_service_EvaluateIELTS net self request sent) =
     EvaluateIELTS_return request
       (fst (evaluate_ielts net (claude_repository self) (claude_request request) sent))"
  by (simp add: ielts_service_EvaluateIELTS_def split: prod.splits)

lemma EvaluateIELTS_outbox:
  "snd (ielts_service_EvaluateIELTS net self request sent) =
     snd (evaluate_ielts net (claude_repository self) (claude_request request) sent)"
  by (simp add: ielts_service_EvaluateIELTS_def split: prod.splits)

lemma EvaluateIELTS_return_Inr:
  assumes "EvaluateIELTS_return request result = Inr response"
  shows "EvaluationResponseFromToDataBase.student_response response =
           EvaluationRequest.student_response request"
    and "EvaluationResponseFromToDataBase.passage response = EvaluationRequest.passage request"
    and "EvaluationResponseFromToDataBase.question response = EvaluationRequest.question request"
    and "EvaluationResponseFromToDataBase.complex_sentences response =
           EvaluationRequest.complex_sentences request"
    and "EvaluationResponseFromToDataBase.advanced_vocabulary response =
           EvaluationRequest.advanced_vocabulary request"
    and "EvaluationResponseFromToDataBase.cohesive_devices response =
           EvaluationRequest.cohesive_devices request"
  using assms by (auto simp: EvaluateIELTS_return_def split: sum.splits)

lemma EvaluateIELTS_scenario:
  "fst (ielts_service_EvaluateIELTS (answering (Inr answer_good_job)) (IELTSService_init secret)
          scenario_request sent)
     = Inr (scenario_response ''Good job.'')"
  by (simp add: EvaluateIELTS_result evaluate_ielts_result answering_def answer_good_job_def
      evaluate_ielts_return_def response_json_def EvaluateIELTS_return_def
      scenario_request_def scenario_response_def)

section \<open>The echoed fields\<close>

text \<open>
  C1. Whatever the external API does, a response returned by \<^verbatim>\<open>EvaluateIELTS\<close>, by the
  handler of the bootstrap or by the delegating one, carries the six fields passage,
  question, student response, complex sentences, advanced vocabulary and cohesive devices
  of the request unchanged.
\<close>

theorem EvaluateIELTS_echoes_request:
  assumes "response = python_server_EvaluateIELTS request
         \<or> fst (ielts_service_EvaluateIELTS net self request sent) = Inr response"
  shows "EvaluationResponseFromToDataBase.passage response = EvaluationRequest.passage request
       \<and> EvaluationResponseFromToDataBase.question response = EvaluationRequest.question request
       \<and> EvaluationResponseFromToDataBase.student_response response =
             EvaluationRequest.student_response request
       \<and> EvaluationResponseFromToDataBase.complex_sentences response =
             EvaluationRequest.complex_sentences request
       \<and> EvaluationResponseFromToDataBase.advanced_vocabulary response =
             EvaluationRequest.advanced_vocabulary request
       \<and> EvaluationResponseFromToDataBase.cohesive_devices response =
             EvaluationRequest.cohesive_devices request"
  using assms
proof
  assume "response = python_server_EvaluateIELTS request"
  then show ?thesis by (simp add: python_server_EvaluateIELTS_def)
next
  assume "fst (ielts_service_EvaluateIELTS net self request sent) = Inr response"
  then have "EvaluateIELTS_return request
       (fst (evaluate_ielts net (claude_repository self) (claude_request request) sent)) = Inr response"
    by (simp add: EvaluateIELTS_result)
  then show ?thesis by (simp add: EvaluateIELTS_return_Inr)
qed

theorem EvaluateIELTS_echoes_request_witness:
  "fst (ielts_service_EvaluateIELTS (answering (Inr answer_good_job)) (IELTSService_init ''k'')
          scenario_request [])
     = Inr (scenario_response ''Good job.'')
   \<and> EvaluationResponseFromToDataBase.passage (scenario_response ''Good job.'') = ''P''
   \<and> EvaluationResponseFromToDataBase.question (scenario_response ''Good job.'') = ''Q''
   \<and> EvaluationResponseFromToDataBase.student_response (scenario_response ''Good job.'') = ''R''
   \<and> EvaluationResponseFromToDataBase.complex_sentences (scenario_response ''Good job.'') = ''yes''
   \<and> EvaluationResponseFromToDataBase.advanced_vocabulary (scenario_response ''Good job.'') = ''no''
   \<and> EvaluationResponseFromToDataBase.cohesive_devices (scenario_response ''Good job.'') = ''yes''"
  using EvaluateIELTS_echoes_request [OF disjI2, OF EvaluateIELTS_scenario [of "''k''" "[]"]]
    EvaluateIELTS_scenario [of "''k''" "[]"]
  by (simp add: scenario_request_def)

section \<open>The evaluation text\<close>


text \<open>
  A string is not always text the field can hold: for a \<^verbatim>\<open>content\<close> that is a string with a
  lone surrogate the constructor of the response raises, and the client returns nothing.
\<close>

lemma evaluate_ielts_surrogate_faults:
  "fst (evaluate_ielts (answering (Inr answer_surrogate)) (ClaudeRepository_init secret)
          (claude_request scenario_request) sent)
     = Inl ValueError"
  by (simp add: evaluate_ielts_result answering_def answer_surrogate_def evaluate_ielts_return_def
      response_json_def)



text \<open>
  What the client does with a response that \<^verbatim>\<open>requests.post\<close> hands back with a status
  other than 200, over any network.
\<close>

lemma non_200_response_gives_error_text:
  assumes "net sent (post_request (api_url (claude_repository self))
             (evaluate_ielts_data (claude_request request))
             (evaluate_ielts_headers (claude_repository self))) = Inr response"
      and "status_code response \<noteq> 200"
  shows "fst (evaluate_ielts net (claude_repository self) (claude_request request) sent)
           = Inr \<lparr>evaluation = ''Error: Unable to get evaluation from Claude.''\<rparr>
       \<and> fst (rpc_call (ielts_service_handler self) net request sent)
           = Inr \<lparr>EvaluationResponseFromToDataBase.student_response =
                     EvaluationRequest.student_response request,
                   passage = EvaluationRequest.passage request,
                   question = EvaluationRequest.question request,
                   complex_sentences = EvaluationRequest.complex_sentences request,
                   advanced_vocabulary = EvaluationRequest.advanced_vocabulary request,
                   cohesive_devices = EvaluationRequest.cohesive_devices request,
                   evaluation_from_claude = ''Error: Unable to get evaluation from Claude.''\<rparr>"
proof -
  have client: "fst (evaluate_ielts net (claude_repository self) (claude_request request) sent)
           = Inr \<lparr>evaluation = ''Error: Unable to get evaluation from Claude.''\<rparr>"
    using assms by (simp add: evaluate_ielts_result evaluate_ielts_return_def)
  have "fst (ielts_service_EvaluateIELTS net self request sent)
          = EvaluateIELTS_return request (Inr \<lparr>evaluation = ''Error: Unable to get evaluation from Claude.''\<rparr>)"
    using client by (simp add: EvaluateIELTS_result)
  then have "fst (rpc_call (ielts_service_handler self) net request sent)
          = Inr \<lparr>EvaluationResponseFromToDataBase.student_response =
                     EvaluationRequest.student_response request,
                   passage = EvaluationRequest.passage request,
                   question = EvaluationRequest.question request,
                   complex_sentences = EvaluationRequest.complex_sentences request,
                   advanced_vocabulary = EvaluationRequest.advanced_vocabulary request,
                   cohesive_devices = EvaluationRequest.cohesive_devices request,
                   evaluation_from_claude = ''Error: Unable to get evaluation from Claude.''\<rparr>"
    by (cases "ielts_service_EvaluateIELTS net self request sent")
       (simp add: rpc_call_def ielts_service_handler_def EvaluateIELTS_return_def)
  with client show ?thesis by simp
qed

text \<open>The HTTP library over an external API: an answer that is no redirect is handed back.\<close>

lemma requests_session_direct:
  assumes "api (prepare call) = Inr answer" and "get_redirect_target answer = None"
  shows "requests_session api sent call = Inr (handed_back answer)"
  using assms by (simp add: requests_session_def eval_nat_numeral)

lemma failing_api_session: "requests_session failing_api sent call = Inr answer_500"
proof -
  have "get_redirect_target \<lparr>answer_status = 500, answer_location = None, answer_body = None\<rparr> = None"
    by (simp add: get_redirect_target_def is_redirect_def)
  then have "requests_session failing_api sent call =
      Inr (handed_back \<lparr>answer_status = 500, answer_location = None, answer_body = None\<rparr>)"
    by (intro requests_session_direct) (simp_all add: failing_api_def)
  then show ?thesis by (simp add: handed_back_def answer_500_def)
qed

lemma redirecting_api_first:
  "redirecting_api (prepare (post_request (api_url (ClaudeRepository_init secret)) data hdrs))
     = Inr answer_moved"
  by (simp add: redirecting_api_def prepare_def post_request_def ClaudeRepository_init_def)

lemma redirecting_api_session:
  "requests_session redirecting_api sent
     (post_request (api_url (ClaudeRepository_init secret)) data hdrs)
   = Inr answer_good_job"
  by (simp add: requests_session_def redirecting_api_first eval_nat_numeral
      get_redirect_target_def is_redirect_def answer_moved_def redirected_request_def
      redirecting_api_def handed_back_def answer_good_job_def)

text \<open>
  C3, as stated: when the external API answers with any status other than 200, the client
  returns the fixed error text. It fails for an answer that is a redirect: the API answers
  the posted request with status 302 and a \<^verbatim>\<open>Location\<close>, the library follows it inside
  \<^verbatim>\<open>requests.post\<close>, the target answers with status 200, and the client returns the
  target's \<^verbatim>\<open>content\<close>.
\<close>

theorem followed_redirect_counterexample:
  "redirecting_api
     (prepare (post_request (api_url (ClaudeRepository_init ''k''))
        (evaluate_ielts_data (claude_request scenario_request))
        (evaluate_ielts_headers (ClaudeRepository_init ''k''))))
     = Inr answer_moved
   \<and> answer_status answer_moved = 302
   \<and> fst (evaluate_ielts (requests_session redirecting_api) (ClaudeRepository_init ''k'')
            (claude_request scenario_request) [])
       = Inr \<lparr>evaluation = ''Good job.''\<rparr>"
  by (simp add: redirecting_api_first evaluate_ielts_result redirecting_api_session
      answer_moved_def answer_good_job_def evaluate_ielts_return_def response_json_def)

text \<open>
  C3, amended. When the response that \<^verbatim>\<open>requests.post\<close> hands back has any status other
  than 200, the client returns the fixed text
  \<open>Error: Unable to get evaluation from Claude.\<close>, and the RPC call completes with a
  response that echoes the request and carries that text. The response handed back is the
  answer of the external API or, when that answer is a redirect the library follows, the
  last answer of the chain.
\<close>

theorem handed_back_non_200_gives_error_text:
  assumes "requests_session api sent
             (post_request (api_url (claude_repository self))
                (evaluate_ielts_data (claude_request request))
                (evaluate_ielts_headers (claude_repository self))) = Inr response"
      and "status_code response \<noteq> 200"
  shows "fst (evaluate_ielts (requests_session api) (claude_repository self)
                (claude_request request) sent)
           = Inr \<lparr>evaluation = ''Error: Unable to get evaluation from Claude.''\<rparr>
       \<and> fst (rpc_call (ielts_service_handler self) (requests_session api) request sent)
           = Inr \<lparr>EvaluationResponseFromToDataBase.student_response =
                     EvaluationRequest.student_response request,
                   passage = EvaluationRequest.passage request,
                   question = EvaluationRequest.question request,
                   complex_sentences = EvaluationRequest.complex_sentences request,
                   advanced_vocabulary = EvaluationRequest.advanced_vocabulary request,
                   cohesive_devices = EvaluationRequest.cohesive_devices request,
                   evaluation_from_claude = ''Error: Unable to get evaluation from Claude.''\<rparr>"
  using assms by (rule non_200_response_gives_error_text)

theorem handed_back_non_200_gives_error_text_witness:
  "fst (evaluate_ielts (requests_session failing_api) (claude_repository (IELTSService_init ''k''))
          (claude_request scenario_request) [])
     = Inr \<lparr>evaluation = ''Error: Unable to get evaluation from Claude.''\<rparr>
   \<and> fst (rpc_call (ielts_service_handler (IELTSService_init ''k'')) (requests_session failing_api)
          scenario_request [])
     = Inr (scenario_response ''Error: Unable to get evaluation from Claude.'')"
  using handed_back_non_200_gives_error_text
    [of failing_api "[]" "IELTSService_init ''k''" scenario_request answer_500]
  by (simp add: failing_api_session answer_500_def scenario_request_def scenario_response_def)

section \<open>Faults that are not handled\<close>

text \<open>
  C5. When the outbound call fails at the transport level, the client does not catch the
  failure: it is the result of the client, and the RPC call ends with an unhandled error
  instead of a response.
\<close>

theorem transport_failure_propagates:
  assumes "net sent (post_request (api_url (claude_repository self))
             (evaluate_ielts_data (claude_request request))
             (evaluate_ielts_headers (claude_repository self))) = Inl failure"
  shows "fst (evaluate_ielts net (claude_repository self) (claude_request request) sent)
           = Inl (RequestException failure)
       \<and> fst (rpc_call (ielts_service_handler self) net request sent)
           = Inl (UNHANDLED (RequestException failure))"
proof -
  have client: "fst (evaluate_ielts net (claude_repository self) (claude_request request) sent)
           = Inl (RequestException failure)"
    using assms by (simp add: evaluate_ielts_result evaluate_ielts_return_def)
  then have "fst (ielts_service_EvaluateIELTS net self request sent) = Inl (RequestException failure)"
    by (simp add: EvaluateIELTS_result EvaluateIELTS_return_def)
  then have "fst (rpc_call (ielts_service_handler self) net request sent)
           = Inl (UNHANDLED (RequestException failure))"
    by (cases "ielts_service_EvaluateIELTS net self request sent")
       (simp add: rpc_call_def ielts_service_handler_def)
  with client show ?thesis by simp
qed

theorem transport_failure_propagates_witness:
  "fst (evaluate_ielts (answering (Inl ConnectionRefused)) (claude_repository (IELTSService_init ''k''))
          (claude_request scenario_request) [])
     = Inl (RequestException ConnectionRefused)
   \<and> fst (rpc_call (ielts_service_handler (IELTSService_init ''k''))
          (answering (Inl ConnectionRefused)) scenario_request [])
     = Inl (UNHANDLED (RequestException ConnectionRefused))"
  using transport_failure_propagates
    [of "answering (Inl ConnectionRefused)" "[]" "IELTSService_init ''k''" scenario_request
        ConnectionRefused]
  by (simp add: answering_def)

text \<open>
  C6. When the external API answers with status 200 and a JSON object without a
  \<^verbatim>\<open>content\<close> field, reading the field raises \<^verbatim>\<open>KeyError\<close>; no fallback text is returned.
\<close>

theorem missing_content_faults:
  assumes "net sent (post_request (api_url self) (evaluate_ielts_data request)
             (evaluate_ielts_headers self)) = Inr response"
      and "status_code response = 200"
      and "parsed_body response = Some (JObject members)"
      and "map_of members ''content'' = None"
  shows "fst (evaluate_ielts net self request sent) = Inl (KeyError ''content'')"
  using assms
  by (simp add: evaluate_ielts_result evaluate_ielts_return_def response_json_def)

theorem missing_content_faults_witness:
  "fst (evaluate_ielts (answering (Inr answer_without_content)) (ClaudeRepository_init ''k'')
          (claude_request scenario_request) [])
     = Inl (KeyError ''content'')"
  using missing_content_faults
    [of "answering (Inr answer_without_content)" "[]" "ClaudeRepository_init ''k''"
        "claude_request scenario_request" answer_without_content
        "[(''error'', JString ''overloaded'')]"]
  by (simp add: answering_def answer_without_content_def)

section \<open>The outbound request\<close>

text \<open>
  The call of \<^verbatim>\<open>requests.post\<close> that the client makes for a request handed to it, and the
  place of each field in the prompt.
\<close>

lemma evaluate_ielts_posts:
  "snd (evaluate_ielts net self request sent) =
     sent @
     [\<lparr>verb = POST, url = api_url self,
       headers = [(''Content-Type'', ''application/json''), (''X-API-Key'', api_key self)],
       body = JObject
         [(''model'', JString ''claude-3-sonnet-20240229''),
          (''messages'',
             JArray [JObject [(''role'', JString ''user''), (''content'', JString (prompt request))]]),
          (''max_tokens'', JInt 1000)]\<rparr>]
   \<and> api_url (ClaudeRepository_init secret) = ''https://api.anthropic.com/v1/messages''
   \<and> api_key (ClaudeRepository_init secret) = secret
   \<and> sublist (''Passage: '' @ EvaluationRequestToClaude.passage request @ ''\<newline>'') (prompt request)
   \<and> sublist (''Question: '' @ EvaluationRequestToClaude.question request @ ''\<newline>'') (prompt request)
   \<and> sublist (''Student Response: '' @ EvaluationRequestToClaude.student_response request @ ''\<newline>'')
         (prompt request)
   \<and> sublist (''1. Complex Sentences: '' @ EvaluationRequestToClaude.complex_sentences request @ ''\<newline>'')
         (prompt request)
   \<and> sublist (''2. Advanced Vocabulary: '' @ EvaluationRequestToClaude.advanced_vocabulary request @ ''\<newline>'')
         (prompt request)
   \<and> sublist (''3. Cohesive Devices: '' @ EvaluationRequestToClaude.cohesive_devices request @ ''\<newline>'')
         (prompt request)"
proof -
  let ?p = "EvaluationRequestToClaude.passage request"
  let ?q = "EvaluationRequestToClaude.question request"
  let ?r = "EvaluationRequestToClaude.student_response request"
  let ?c = "EvaluationRequestToClaude.complex_sentences request"
  let ?a = "EvaluationRequestToClaude.advanced_vocabulary request"
  let ?d = "EvaluationRequestToClaude.cohesive_devices request"
  have sent: "snd (evaluate_ielts net self request sent) =
     sent @
     [\<lparr>verb = POST, url = api_url self,
       headers = [(''Content-Type'', ''application/json''), (''X-API-Key'', api_key self)],
       body = JObject
         [(''model'', JString ''claude-3-sonnet-20240229''),
          (''messages'',
             JArray [JObject [(''role'', JString ''user''), (''content'', JString (prompt request))]]),
          (''max_tokens'', JInt 1000)]\<rparr>]"
    by (simp add: evaluate_ielts_outbox post_request_def evaluate_ielts_data_def
        evaluate_ielts_headers_def)
  have init: "api_url (ClaudeRepository_init secret) = ''https://api.anthropic.com/v1/messages''"
    "api_key (ClaudeRepository_init secret) = secret"
    by (simp_all add: ClaudeRepository_init_def)
  have p: "prompt request =
      ''\<newline>        Evaluate the following IELTS reading response:\<newline>\<newline>        ''
      @ (''Passage: '' @ ?p @ ''\<newline>'')
      @ ''        Question: '' @ ?q @ ''\<newline>        Student Response: '' @ ?r
      @ ''\<newline>\<newline>        Please consider the following aspects in your evaluation:\<newline>        1. Complex Sentences: ''
      @ ?c @ ''\<newline>        2. Advanced Vocabulary: '' @ ?a @ ''\<newline>        3. Cohesive Devices: '' @ ?d
      @ ''\<newline>\<newline>        Provide a detailed evaluation of the student's response, including strengths and areas for improvement.\<newline>        ''"
    by (simp add: prompt_def)
  have q: "prompt request =
      (''\<newline>        Evaluate the following IELTS reading response:\<newline>\<newline>        Passage: ''
       @ ?p @ ''\<newline>        '')
      @ (''Question: '' @ ?q @ ''\<newline>'')
      @ ''        Student Response: '' @ ?r
      @ ''\<newline>\<newline>        Please consider the following aspects in your evaluation:\<newline>        1. Complex Sentences: ''
      @ ?c @ ''\<newline>        2. Advanced Vocabulary: '' @ ?a @ ''\<newline>        3. Cohesive Devices: '' @ ?d
      @ ''\<newline>\<newline>        Provide a detailed evaluation of the student's response, including strengths and areas for improvement.\<newline>        ''"
    by (simp add: prompt_def)
  have r: "prompt request =
      (''\<newline>        Evaluate the following IELTS reading response:\<newline>\<newline>        Passage: ''
       @ ?p @ ''\<newline>        Question: '' @ ?q @ ''\<newline>        '')
      @ (''Student Response: '' @ ?r @ ''\<newline>'')
      @ ''\<newline>        Please consider the following aspects in your evaluation:\<newline>        1. Complex Sentences: ''
      @ ?c @ ''\<newline>        2. Advanced Vocabulary: '' @ ?a @ ''\<newline>        3. Cohesive Devices: '' @ ?d
      @ ''\<newline>\<newline>        Provide a detailed evaluation of the student's response, including strengths and areas for improvement.\<newline>        ''"
    by (simp add: prompt_def)
  have c: "prompt request =
      (''\<newline>        Evaluate the following IELTS reading response:\<newline>\<newline>        Passage: ''
       @ ?p @ ''\<newline>        Question: '' @ ?q @ ''\<newline>        Student Response: '' @ ?r
       @ ''\<newline>\<newline>        Please consider the following aspects in your evaluation:\<newline>        '')
      @ (''1. Complex Sentences: '' @ ?c @ ''\<newline>'')
      @ ''        2. Advanced Vocabulary: '' @ ?a @ ''\<newline>        3. Cohesive Devices: '' @ ?d
      @ ''\<newline>\<newline>        Provide a detailed evaluation of the student's response, including strengths and areas for improvement.\<newline>        ''"
    by (simp add: prompt_def)
  have a: "prompt request =
      (''\<newline>        Evaluate the following IELTS reading response:\<newline>\<newline>        Passage: ''
       @ ?p @ ''\<newline>        Question: '' @ ?q @ ''\<newline>        Student Response: '' @ ?r
       @ ''\<newline>\<newline>        Please consider the following aspects in your evaluation:\<newline>        1. Complex Sentences: ''
       @ ?c @ ''\<newline>        '')
      @ (''2. Advanced Vocabulary: '' @ ?a @ ''\<newline>'')
      @ ''        3. Cohesive Devices: '' @ ?d
      @ ''\<newline>\<newline>        Provide a detailed evaluation of the student's response, including strengths and areas for improvement.\<newline>        ''"
    by (simp add: prompt_def)
  have d: "prompt request =
      (''\<newline>        Evaluate the following IELTS reading response:\<newline>\<newline>        Passage: ''
       @ ?p @ ''\<newline>        Question: '' @ ?q @ ''\<newline>        Student Response: '' @ ?r
       @ ''\<newline>\<newline>        Please consider the following aspects in your evaluation:\<newline>        1. Complex Sentences: ''
       @ ?c @ ''\<newline>        2. Advanced Vocabulary: '' @ ?a @ ''\<newline>        '')
      @ (''3. Cohesive Devices: '' @ ?d @ ''\<newline>'')
      @ ''\<newline>        Provide a detailed evaluation of the student's response, including strengths and areas for improvement.\<newline>        ''"
    by (simp add: prompt_def)
  have "sublist (''Passage: '' @ ?p @ ''\<newline>'') (prompt request)"
    by (subst p) (rule sublist_appendI)
  moreover have "sublist (''Question: '' @ ?q @ ''\<newline>'') (prompt request)"
    by (subst q) (rule sublist_appendI)
  moreover have "sublist (''Student Response: '' @ ?r @ ''\<newline>'') (prompt request)"
    by (subst r) (rule sublist_appendI)
  moreover have "sublist (''1. Complex Sentences: '' @ ?c @ ''\<newline>'') (prompt request)"
    by (subst c) (rule sublist_appendI)
  moreover have "sublist (''2. Advanced Vocabulary: '' @ ?a @ ''\<newline>'') (prompt request)"
    by (subst a) (rule sublist_appendI)
  moreover have "sublist (''3. Cohesive Devices: '' @ ?d @ ''\<newline>'') (prompt request)"
    by (subst d) (rule sublist_appendI)
  ultimately show ?thesis using sent init by blast
qed

lemma prompt_of_request:
  "prompt (claude_request request) =
     ''\<newline>        Evaluate the following IELTS reading response:\<newline>\<newline>        Passage: ''
       @ EvaluationRequest.passage request
       @ ''\<newline>        Question: ''
       @ EvaluationRequest.question request
       @ ''\<newline>        Student Response: ''
       @ EvaluationRequest.student_response request
       @ ''\<newline>\<newline>        Please consider the following aspects in your evaluation:\<newline>        1. Complex Sentences: ''
       @ EvaluationRequest.complex_sentences request
       @ ''\<newline>        2. Advanced Vocabulary: ''
       @ EvaluationRequest.advanced_vocabulary request
       @ ''\<newline>        3. Cohesive Devices: ''
       @ EvaluationRequest.cohesive_devices request
       @ ''\<newline>\<newline>        Provide a detailed evaluation of the student's response, including strengths and areas for improvement.\<newline>        ''"
  by (simp add: prompt_def claude_request_def)

text \<open>
  C7. For every EvaluationRequest the delegating handler, with the repository its
  constructor builds, makes exactly one call of \<^verbatim>\<open>requests.post\<close>: a POST to the fixed
  endpoint with the headers \<open>Content-Type: application/json\<close> and \<open>X-API-Key\<close> set to the
  credential, and a JSON body with exactly the fields \<open>model\<close> (the fixed identifier),
  \<open>messages\<close> (one message of role \<open>user\<close> whose content is the prompt) and \<open>max_tokens\<close>
  (1000). The prompt is the fixed template around the six fields of the incoming request,
  each after its label. The client builds the same request from any repository and any
  request handed to it.
\<close>

theorem EvaluateIELTS_posts_request:
  "snd (ielts_service_EvaluateIELTS net (IELTSService_init secret) request sent) =
     sent @
     [\<lparr>verb = POST, url = ''https://api.anthropic.com/v1/messages'',
       headers = [(''Content-Type'', ''application/json''), (''X-API-Key'', secret)],
       body = JObject
         [(''model'', JString ''claude-3-sonnet-20240229''),
          (''messages'',
             JArray [JObject [(''role'', JString ''user''),
                              (''content'', JString (prompt (claude_request request)))]]),
          (''max_tokens'', JInt 1000)]\<rparr>]
   \<and> prompt (claude_request request) =
       ''\<newline>        Evaluate the following IELTS reading response:\<newline>\<newline>        Passage: ''
         @ EvaluationRequest.passage request
         @ ''\<newline>        Question: ''
         @ EvaluationRequest.question request
         @ ''\<newline>        Student Response: ''
         @ EvaluationRequest.student_response request
         @ ''\<newline>\<newline>        Please consider the following aspects in your evaluation:\<newline>        1. Complex Sentences: ''
         @ EvaluationRequest.complex_sentences request
         @ ''\<newline>        2. Advanced Vocabulary: ''
         @ EvaluationRequest.advanced_vocabulary request
         @ ''\<newline>        3. Cohesive Devices: ''
         @ EvaluationRequest.cohesive_devices request
         @ ''\<newline>\<newline>        Provide a detailed evaluation of the student's response, including strengths and areas for improvement.\<newline>        ''
   \<and> sublist (''Passage: '' @ EvaluationRequest.passage request @ ''\<newline>'')
         (prompt (claude_request request))
   \<and> sublist (''Question: '' @ EvaluationRequest.question request @ ''\<newline>'')
         (prompt (claude_request request))
   \<and> sublist (''Student Response: '' @ EvaluationRequest.student_response request @ ''\<newline>'')
         (prompt (claude_request request))
   \<and> sublist (''1. Complex Sentences: '' @ EvaluationRequest.complex_sentences request @ ''\<newline>'')
         (prompt (claude_request request))
   \<and> sublist (''2. Advanced Vocabulary: '' @ EvaluationRequest.advanced_vocabulary request @ ''\<newline>'')
         (prompt (claude_request request))
   \<and> sublist (''3. Cohesive Devices: '' @ EvaluationRequest.cohesive_devices request @ ''\<newline>'')
         (prompt (claude_request request))
   \<and> snd (evaluate_ielts net self client_request sent) =
       sent @
       [\<lparr>verb = POST, url = api_url self,
         headers = [(''Content-Type'', ''application/json''), (''X-API-Key'', api_key self)],
         body = JObject
           [(''model'', JString ''claude-3-sonnet-20240229''),
            (''messages'',
               JArray [JObject [(''role'', JString ''user''),
                                (''content'', JString (prompt client_request))]]),
            (''max_tokens'', JInt 1000)]\<rparr>]"
proof -
  note client = evaluate_ielts_posts
  have handler: "snd (ielts_service_EvaluateIELTS net (IELTSService_init secret) request sent) =
     sent @
     [\<lparr>verb = POST, url = ''https://api.anthropic.com/v1/messages'',
       headers = [(''Content-Type'', ''application/json''), (''X-API-Key'', secret)],
       body = JObject
         [(''model'', JString ''claude-3-sonnet-20240229''),
          (''messages'',
             JArray [JObject [(''role'', JString ''user''),
                              (''content'', JString (prompt (claude_request request)))]]),
          (''max_tokens'', JInt 1000)]\<rparr>]"
    using client [of net "ClaudeRepository_init secret" "claude_request request" sent secret]
    by (simp add: EvaluateIELTS_outbox IELTSService_init_def)
  have fields:
    "EvaluationRequestToClaude.passage (claude_request request) = EvaluationRequest.passage request"
    "EvaluationRequestToClaude.question (claude_request request) = EvaluationRequest.question request"
    "EvaluationRequestToClaude.student_response (claude_request request) =
       EvaluationRequest.student_response request"
    "EvaluationRequestToClaude.complex_sentences (claude_request request) =
       EvaluationRequest.complex_sentences request"
    "EvaluationRequestToClaude.advanced_vocabulary (claude_request request) =
       EvaluationRequest.advanced_vocabulary request"
    "EvaluationRequestToClaude.cohesive_devices (claude_request request) =
       EvaluationRequest.cohesive_devices request"
    by (simp_all add: claude_request_def)
  from client [of net self "claude_request request" sent secret]
  have embedded:
    "sublist (''Passage: '' @ EvaluationRequest.passage request @ ''\<newline>'')
         (prompt (claude_request request))"
    "sublist (''Question: '' @ EvaluationRequest.question request @ ''\<newline>'')
         (prompt (claude_request request))"
    "sublist (''Student Response: '' @ EvaluationRequest.student_response request @ ''\<newline>'')
         (prompt (claude_request request))"
    "sublist (''1. Complex Sentences: '' @ EvaluationRequest.complex_sentences request @ ''\<newline>'')
         (prompt (claude_request request))"
    "sublist (''2. Advanced Vocabulary: '' @ EvaluationRequest.advanced_vocabulary request @ ''\<newline>'')
         (prompt (claude_request request))"
    "sublist (''3. Cohesive Devices: '' @ EvaluationRequest.cohesive_devices request @ ''\<newline>'')
         (prompt (claude_request request))"
    by (simp_all only: fields)
  from client [of net self client_request sent secret]
  have posted: "snd (evaluate_ielts net self client_request sent) =
       sent @
       [\<lparr>verb = POST, url = api_url self,
         headers = [(''Content-Type'', ''application/json''), (''X-API-Key'', api_key self)],
         body = JObject
           [(''model'', JString ''claude-3-sonnet-20240229''),
            (''messages'',
               JArray [JObject [(''role'', JString ''user''),
                                (''content'', JString (prompt client_request))]]),
            (''max_tokens'', JInt 1000)]\<rparr>]"
    by blast
  from handler prompt_of_request [of request] embedded posted show ?thesis by blast
qed

section \<open>The bootstrap\<close>

lemma servicers_serve:
  "servicers serve =
     [GreeterServicer SayHello, IELTSServiceServicer (without_call python_server_EvaluateIELTS)]"
  by (simp add: serve_def serve_configured_def server_start_def add_insecure_port_def
      add_IELTSServiceServicer_to_server_def add_GreeterServicer_to_server_def grpc_server_new_def)

lemma started_serve: "started serve"
  by (simp add: serve_def server_start_def)

lemma delegating_handler_is_not_stub:
  "ielts_service_handler self \<noteq> without_call h"
proof
  assume eq: "ielts_service_handler self = without_call h"
  have "snd (ielts_service_handler self (answering (Inl Timeout)) scenario_request []) \<noteq> []"
    by (simp add: ielts_service_handler_def EvaluateIELTS_outbox evaluate_ielts_outbox)
  moreover have "snd (without_call h (answering (Inl Timeout)) scenario_request []) = []"
    by (simp add: without_call_def)
  ultimately show False using eq by simp
qed

text \<open>
  C8. The server that \<^verbatim>\<open>serve\<close> starts has a worker pool of size 10 and one listener, an
  insecure one on port 50052; the greeting servicer and the evaluation servicer are both
  registered on it, and they were registered before it was started.
\<close>

theorem serve_bootstrap:
  "max_workers serve = 10
   \<and> listeners serve = [InsecurePort ''[::]:50052'']
   \<and> map listener_port (listeners serve) = [''50052'']
   \<and> servicers serve =
       [GreeterServicer SayHello, IELTSServiceServicer (without_call python_server_EvaluateIELTS)]
   \<and> started serve
   \<and> \<not> started serve_configured
   \<and> servicers serve_configured = servicers serve
   \<and> listeners serve_configured = listeners serve"
  by (simp add: serve_def serve_configured_def server_start_def add_insecure_port_def
      add_IELTSServiceServicer_to_server_def add_GreeterServicer_to_server_def grpc_server_new_def
      port_of_def listener_port_def)

text \<open>
  C4. The \<^verbatim>\<open>EvaluateIELTS\<close> handler of the server that \<^verbatim>\<open>serve\<close> starts answers every
  request with the echoed fields and the text \<open>Evaluation not implemented yet.\<close>; it posts
  nothing, whatever the network would answer; and no delegating handler is registered.
\<close>

theorem serve_registers_stub:
  "rpc_EvaluateIELTS serve net request sent =
     (Inr \<lparr>EvaluationResponseFromToDataBase.student_response =
              EvaluationRequest.student_response request,
            passage = EvaluationRequest.passage request,
            question = EvaluationRequest.question request,
            complex_sentences = EvaluationRequest.complex_sentences request,
            advanced_vocabulary = EvaluationRequest.advanced_vocabulary request,
            cohesive_devices = EvaluationRequest.cohesive_devices request,
            evaluation_from_claude = ''Evaluation not implemented yet.''\<rparr>,
      sent)
   \<and> IELTSServiceServicer (ielts_service_handler self) \<notin> set (servicers serve)"
proof -
  have "rpc_EvaluateIELTS serve net request sent =
          rpc_call (without_call python_server_EvaluateIELTS) net request sent"
    by (simp add: rpc_EvaluateIELTS_def started_serve servicers_serve)
  then have call: "rpc_EvaluateIELTS serve net request sent =
          (Inr (python_server_EvaluateIELTS request), sent)"
    by (simp add: rpc_call_def without_call_def)
  have "IELTSServiceServicer (ielts_service_handler self) \<notin> set (servicers serve)"
    by (simp add: servicers_serve delegating_handler_is_not_stub)
  with call show ?thesis by (simp add: python_server_EvaluateIELTS_def)
qed

section \<open>Calls in flight together\<close>

lemma worker_step_service: "service (snd (worker_step answer p f)) = service p"
  by (induction answer p f rule: worker_step.induct) simp_all

lemma worker_step_frame: "fst (worker_step answer p f) = own_step answer (service p) f"
  by (induction answer p f rule: worker_step.induct) (simp_all add: own_step_def)

lemma run_pool_frame:
  "i < length frames \<Longrightarrow>
     fst (run_pool answers schedule (frames, p)) ! i =
       (own_step (answers i) (service p) ^^ count_list schedule i) (frames ! i)
     \<and> service (snd (run_pool answers schedule (frames, p))) = service p
     \<and> length (fst (run_pool answers schedule (frames, p))) = length frames"
proof (induction schedule arbitrary: frames p)
  case Nil
  then show ?case by simp
next
  case (Cons j schedule)
  show ?case
  proof (cases "j < length frames")
    case False
    with Cons show ?thesis by auto
  next
    case True
    obtain f' p' where step: "worker_step (answers j) p (frames ! j) = (f', p')"
      by (cases "worker_step (answers j) p (frames ! j)")
    have f': "f' = own_step (answers j) (service p) (frames ! j)"
      using worker_step_frame [of "answers j" p "frames ! j"] step by simp
    have p': "service p' = service p"
      using worker_step_service [of "answers j" p "frames ! j"] step by simp
    have run: "run_pool answers (j # schedule) (frames, p) =
                 run_pool answers schedule (frames[j := f'], p')"
      using True step by simp
    from Cons.prems have "i < length (frames[j := f'])" by simp
    note IH = Cons.IH [OF this, of p']
    show ?thesis
    proof (cases "j = i")
      case True
      with IH run f' p' Cons.prems show ?thesis
        by (simp add: funpow_swap1)
    next
      case False
      with IH run p' Cons.prems show ?thesis by simp
    qed
  qed
qed

lemma own_step_Returned: "(own_step answer self ^^ n) (Returned r) = Returned r"
  by (induction n) (simp_all add: own_step_def)

lemma own_step_twice:
  "own_step answer self (own_step answer self (enter call)) = Returned (alone self answer call)"
proof (cases "fst call")
  case PythonServer
  then show ?thesis
    by (simp add: own_step_def enter_def alone_def without_call_def)
next
  case IeltsService
  then show ?thesis
    by (simp add: own_step_def enter_def alone_def ielts_service_handler_def
        EvaluateIELTS_result evaluate_ielts_result answering_def)
qed

lemma own_step_from_enter:
  "2 \<le> n \<Longrightarrow> (own_step answer self ^^ n) (enter call) = Returned (alone self answer call)"
proof -
  assume "2 \<le> n"
  then obtain m where n: "n = m + 2" by (metis add.commute le_Suc_ex)
  have "(own_step answer self ^^ (m + 2)) (enter call) =
          (own_step answer self ^^ m) ((own_step answer self ^^ 2) (enter call))"
    by (simp only: funpow_add o_apply)
  also have "(own_step answer self ^^ 2) (enter call) = Returned (alone self answer call)"
    by (simp add: numeral_2_eq_2 own_step_twice)
  finally show ?thesis using n by (simp add: own_step_Returned)
qed

lemma own_step_returns_alone:
  "(own_step answer self ^^ n) (enter call) = Returned r \<Longrightarrow> r = alone self answer call"
proof -
  assume ret: "(own_step answer self ^^ n) (enter call) = Returned r"
  consider "n = 0" | "n = 1" | "2 \<le> n" by linarith
  then show ?thesis
  proof cases
    case 1
    with ret show ?thesis by (simp add: enter_def)
  next
    case 2
    show ?thesis
    proof (cases "fst call")
      case PythonServer
      with 2 ret show ?thesis
        by (simp add: own_step_def enter_def alone_def without_call_def)
    next
      case IeltsService
      with 2 ret show ?thesis by (simp add: own_step_def enter_def)
    qed
  next
    case 3
    with ret own_step_from_enter [where n = n and answer = answer and self = self and call = call]
    show ?thesis by simp
  qed
qed

lemma other_calls_do_not_matter:
  assumes "i < length frames" and "length frames' = length frames"
      and "frames' ! i = frames ! i" and "answers' i = answers i" and "service p' = service p"
  shows "fst (run_pool answers' schedule (frames', p')) ! i =
         fst (run_pool answers schedule (frames, p)) ! i"
proof -
  from assms have "i < length frames'" by simp
  from run_pool_frame [OF this, of answers' schedule p'] run_pool_frame [OF assms(1), of answers schedule p]
  show ?thesis using assms by simp
qed

text \<open>
  C9. Take any number of \<^verbatim>\<open>EvaluateIELTS\<close> calls in flight together, each running either
  handler, interleaved in any order. A call that has returned (as every call has that was
  scheduled twice) holds exactly what its handler returns when it runs alone on the call's
  own request and the call's own answer from the external API: nothing of the other calls'
  requests or answers enters it. The servicer object the calls share is left as it was.
\<close>

theorem concurrent_calls_independent:
  assumes "i < length calls"
      and "fst (run_pool answers schedule (map enter calls, p)) ! i = Returned r
         \<or> 2 \<le> count_list schedule i"
  shows "fst (run_pool answers schedule (map enter calls, p)) ! i
           = Returned (alone (service p) (answers i) (calls ! i))
       \<and> service (snd (run_pool answers schedule (map enter calls, p))) = service p"
proof -
  from assms(1) have len: "i < length (map enter calls)" by simp
  note pool = run_pool_frame [OF len, of answers schedule p]
  from pool assms(1) have frame:
    "fst (run_pool answers schedule (map enter calls, p)) ! i =
       (own_step (answers i) (service p) ^^ count_list schedule i) (enter (calls ! i))"
    by simp
  from assms(2) have "fst (run_pool answers schedule (map enter calls, p)) ! i
           = Returned (alone (service p) (answers i) (calls ! i))"
  proof
    assume ret: "fst (run_pool answers schedule (map enter calls, p)) ! i = Returned r"
    with frame have "r = alone (service p) (answers i) (calls ! i)"
      using own_step_returns_alone
        [where answer = "answers i" and self = "service p" and n = "count_list schedule i"
           and call = "calls ! i" and r = r]
      by simp
    with ret show ?thesis by simp
  next
    assume "2 \<le> count_list schedule i"
    with frame show ?thesis by (simp add: own_step_from_enter)
  qed
  with pool show ?thesis by simp
qed

theorem concurrent_calls_independent_witness:
  "fst (run_pool scenario_answers [0, 1, 1, 0]
          (map enter [(IeltsService, scenario_request), (IeltsService, other_request)],
           \<lparr>service = IELTSService_init ''k'', wire = []\<rparr>)) ! 0
     = Returned (Inr (scenario_response ''Good job.''))
   \<and> service (snd (run_pool scenario_answers [0, 1, 1, 0]
          (map enter [(IeltsService, scenario_request), (IeltsService, other_request)],
           \<lparr>service = IELTSService_init ''k'', wire = []\<rparr>)))
     = IELTSService_init ''k''"
proof -
  have alone: "alone (IELTSService_init ''k'') (scenario_answers 0) (IeltsService, scenario_request)
                 = Inr (scenario_response ''Good job.'')"
    by (simp add: alone_def ielts_service_handler_def scenario_answers_def EvaluateIELTS_scenario)
  have "(0::nat) < length [(IeltsService, scenario_request), (IeltsService, other_request)]"
    by simp
  moreover have "2 \<le> count_list [0, 1, 1, 0] (0::nat)"
    by simp
  ultimately show ?thesis
    using concurrent_calls_independent
      [of 0 "[(IeltsService, scenario_request), (IeltsService, other_request)]"
          scenario_answers "[0, 1, 1, 0]" "\<lparr>service = IELTSService_init ''k'', wire = []\<rparr>"]
      alone
    by simp
qed

section \<open>The greeting service\<close>

text \<open>
  C10. For every HelloRequest with name \<open>n\<close>, SayHello returns a HelloReply whose message
  is exactly \<open>Hello, \<close> followed by \<open>n\<close> followed by \<open>!\<close>.
\<close>

theorem SayHello_message:
  "message (SayHello request) = ''Hello, '' @ name request @ ''!''"
  by (simp add: SayHello_def)

end
